theory Spec2Isabelle
  imports Complex_Main "HOL-Library.Sublist"
begin

section \<open>Series 27 outlier analysis and correction\<close>

text \<open>
  A shallow embedding of \<^verbatim>\<open>outlier_analysis_series27.py\<close>: the detector
  \<^verbatim>\<open>detect_outliers\<close> and the batch pass of \<^verbatim>\<open>main\<close> (reshape, detect,
  per-outlier correction, summary, plot labels).

  Conventions of the model.
  \<^item> A float is a \<open>real option\<close>: \<open>None\<close> is NaN (an empty spreadsheet cell), \<open>Some x\<close> a
    number. An operation with a NaN operand is NaN, a comparison with a NaN operand is
    false, as in IEEE 754. The infinities are outside the model.
  \<^item> The statistics and the tests of the detector are taken in exact real arithmetic.
    The addition of line 116, which writes the corrected values, is float64 addition:
    the exact sum rounded to the nearest float64, ties to even. A column of whole
    numbers, which pandas holds as int64, adds to the same values while they stay below
    \<open>2 ^ 53\<close> in magnitude; larger integers are outside the model. Negation and \<open>abs\<close>
    are exact on floats.
  \<^item> Strings are byte strings; the character classes of \<^verbatim>\<open>\d\<close>, \<^verbatim>\<open>str.split\<close>,
    \<^verbatim>\<open>str.lower\<close> and \<^verbatim>\<open>int\<close> are their ASCII parts.
  \<^item> The sheets have the workbook's layout: the summary sheet has a column
    \<^verbatim>\<open>Year_Pair\<close>, whose cells are strings or values that are no strings, and numeric
    value columns; a raw-data sheet has numeric columns with text headers.
\<close>

subsection \<open>Floats with NaN\<close>

type_synonym pyfloat = "real option"

definition fl_neg :: "pyfloat \<Rightarrow> pyfloat" where
  "fl_neg a = map_option uminus a"

definition fl_abs :: "pyfloat \<Rightarrow> pyfloat" where
  "fl_abs a = map_option abs a"

definition fl_add :: "pyfloat \<Rightarrow> pyfloat \<Rightarrow> pyfloat" where
  "fl_add a b = (case (a, b) of (Some x, Some y) \<Rightarrow> Some (x + y) | _ \<Rightarrow> None)"

definition fl_sub :: "pyfloat \<Rightarrow> pyfloat \<Rightarrow> pyfloat" where
  "fl_sub a b = (case (a, b) of (Some x, Some y) \<Rightarrow> Some (x - y) | _ \<Rightarrow> None)"

definition fl_mul :: "pyfloat \<Rightarrow> pyfloat \<Rightarrow> pyfloat" where
  "fl_mul a b = (case (a, b) of (Some x, Some y) \<Rightarrow> Some (x * y) | _ \<Rightarrow> None)"

definition fl_ge :: "pyfloat \<Rightarrow> pyfloat \<Rightarrow> bool" where
  "fl_ge a b = (case (a, b) of (Some x, Some y) \<Rightarrow> x \<ge> y | _ \<Rightarrow> False)"

definition fl_lt :: "pyfloat \<Rightarrow> pyfloat \<Rightarrow> bool" where
  "fl_lt a b = (case (a, b) of (Some x, Some y) \<Rightarrow> x < y | _ \<Rightarrow> False)"

definition fl_gt :: "pyfloat \<Rightarrow> pyfloat \<Rightarrow> bool" where
  "fl_gt a b = (case (a, b) of (Some x, Some y) \<Rightarrow> x > y | _ \<Rightarrow> False)"

subsection \<open>Float64 addition\<close>

text \<open>
  Rounding to the nearest float64, ties to even: a float64 has a significand of 53 bits,
  so the unit in the last place of \<open>x\<close> is \<open>2\<close> to the power \<open>\<lfloor>log\<^sub>2 \<bar>x\<bar>\<rfloor> - 52\<close>, and never less
  than \<open>2\<close> to the power \<open>- 1074\<close> (the subnormal range).
\<close>

definition round_half_even :: "real \<Rightarrow> int" where
  "round_half_even m =
     (let f = \<lfloor>m\<rfloor>; r = m - of_int f
      in if r < 1 / 2 then f else if 1 / 2 < r then f + 1 else if even f then f else f + 1)"

definition pow2 :: "int \<Rightarrow> real" where
  "pow2 e = (if 0 \<le> e then 2 ^ nat e else 1 / 2 ^ nat (- e))"

definition float64_exp :: "real \<Rightarrow> int" where
  "float64_exp x = max (\<lfloor>log 2 \<bar>x\<bar>\<rfloor> - 52) (- 1074)"

definition round64 :: "real \<Rightarrow> real" where
  "round64 x =
     (if x = 0 then 0
      else of_int (round_half_even (x / pow2 (float64_exp x))) * pow2 (float64_exp x))"

definition float64_add :: "pyfloat \<Rightarrow> pyfloat \<Rightarrow> pyfloat" where
  "float64_add a b = (case (a, b) of (Some x, Some y) \<Rightarrow> Some (round64 (x + y)) | _ \<Rightarrow> None)"

subsection \<open>The pandas operations on a column\<close>

text \<open>
  \<^verbatim>\<open>Series.mean\<close>, \<^verbatim>\<open>Series.std\<close> and \<^verbatim>\<open>Series.quantile\<close> skip NaN. The mean of no
  value is NaN; \<^verbatim>\<open>std\<close> is the sample standard deviation (\<^verbatim>\<open>ddof=1\<close>), NaN for fewer
  than two values; \<^verbatim>\<open>quantile\<close> interpolates linearly between the two nearest order
  statistics.
\<close>

definition dropna :: "pyfloat list \<Rightarrow> real list" where
  "dropna col = List.map_filter id col"

definition series_mean :: "pyfloat list \<Rightarrow> pyfloat" where
  "series_mean col =
     (let xs = dropna col
      in if xs = [] then None else Some (sum_list xs / real (length xs)))"

definition series_std :: "pyfloat list \<Rightarrow> pyfloat" where
  "series_std col =
     (let xs = dropna col; n = length xs
      in if n \<le> 1 then None
         else let avg = sum_list xs / real n
              in Some (sqrt (sum_list (map (\<lambda>x. (avg - x)\<^sup>2) xs) / real (n - 1))))"

definition series_quantile :: "pyfloat list \<Rightarrow> real \<Rightarrow> pyfloat" where
  "series_quantile col q =
     (let xs = sort (dropna col); n = length xs
      in if n = 0 then None
         else let h = real (n - 1) * q; i = nat \<lfloor>h\<rfloor>; g = h - real i
              in if i + 1 < n then Some (xs ! i + g * (xs ! (i + 1) - xs ! i))
                 else Some (xs ! (n - 1)))"

text \<open>\<^verbatim>\<open>df[mask]\<close>: the rows at which the boolean mask is true, in their order.\<close>

definition select_mask :: "'a list \<Rightarrow> bool list \<Rightarrow> 'a list" where
  "select_mask df flags = map fst (filter snd (zip df flags))"

subsection \<open>The detector\<close>

text \<open>
  A cell of the \<^verbatim>\<open>Year_Pair\<close> column as \<^verbatim>\<open>read_excel\<close> delivers it: a string, or a value
  that is no string (a bare year is read as a number, an empty cell as NaN), carried
  with the text \<^verbatim>\<open>str\<close> gives for it.
\<close>

datatype label_cell = Text string | NotText string

record diff_row =
  Year_Pair :: label_cell
  Sensor :: string
  Difference :: pyfloat

datatype py_error =
    ValueError string
  | KeyError string
  | IndexError
  | TypeError
  | ReadError string
  | SystemExit nat

definition detect_outliers ::
  "diff_row list \<Rightarrow> string \<Rightarrow> pyfloat \<Rightarrow> pyfloat \<Rightarrow> pyfloat \<Rightarrow> py_error + diff_row list" where
  "detect_outliers df method abs_thr z_thr iqr_fac =
     (let col = map Difference df
      in if method = ''abs'' then
           Inr (select_mask df (map (\<lambda>d. fl_ge (fl_abs d) abs_thr) col))
         else if method = ''zscore'' then
           Inr (select_mask df
                  (map (\<lambda>d. fl_ge (fl_abs (fl_sub d (series_mean col)))
                                   (fl_mul z_thr (series_std col))) col))
         else if method = ''iqr'' then
           (let q1 = series_quantile col (1 / 4);
                q3 = series_quantile col (3 / 4);
                iqr = fl_sub q3 q1;
                lower = fl_sub q1 (fl_mul iqr_fac iqr);
                upper = fl_add q3 (fl_mul iqr_fac iqr)
            in Inr (select_mask df (map (\<lambda>d. fl_lt d lower \<or> fl_gt d upper) col)))
         else Inl (ValueError (''Unknown method: '' @ method)))"

subsection \<open>Strings\<close>

definition is_digit :: "char \<Rightarrow> bool" where
  "is_digit c = (c \<in> set ''0123456789'')"

definition digit_val :: "char \<Rightarrow> nat" where
  "digit_val c = of_char c - 48"

definition digit_char :: "nat \<Rightarrow> char" where
  "digit_char d = ''0123456789'' ! d"

text \<open>The ASCII whitespace of \<^verbatim>\<open>str.split()\<close> and of \<^verbatim>\<open>int\<close>.\<close>

definition is_space :: "char \<Rightarrow> bool" where
  "is_space c = (let n = (of_char c :: nat) in (9 \<le> n \<and> n \<le> 13) \<or> (28 \<le> n \<and> n \<le> 32))"

fun py_split_aux :: "string \<Rightarrow> string \<Rightarrow> string list" where
  "py_split_aux cur [] = (if cur = [] then [] else [cur])"
| "py_split_aux cur (c # cs) =
     (if is_space c then (if cur = [] then py_split_aux [] cs else cur # py_split_aux [] cs)
      else py_split_aux (cur @ [c]) cs)"

definition py_split :: "string \<Rightarrow> string list" where
  "py_split s = py_split_aux [] s"

definition py_strip :: "string \<Rightarrow> string" where
  "py_strip s = rev (dropWhile is_space (rev (dropWhile is_space s)))"

text \<open>
  \<^verbatim>\<open>int(s)\<close>: surrounding whitespace, an optional sign, then decimal digits, single
  underscores allowed between digits. \<open>None\<close> is the \<^verbatim>\<open>ValueError\<close>.
\<close>

fun py_digits :: "nat \<Rightarrow> bool \<Rightarrow> string \<Rightarrow> nat option" where
  "py_digits acc after_digit [] = (if after_digit then Some acc else None)"
| "py_digits acc after_digit (c # cs) =
     (if is_digit c then py_digits (10 * acc + digit_val c) True cs
      else if c = CHR ''_'' \<and> after_digit then py_digits acc False cs
      else None)"

definition py_int :: "string \<Rightarrow> int option" where
  "py_int s =
     (case py_strip s of
        [] \<Rightarrow> None
      | c # cs \<Rightarrow>
          if c = CHR ''-'' then map_option (\<lambda>n. - int n) (py_digits 0 False cs)
          else if c = CHR ''+'' then map_option int (py_digits 0 False cs)
          else map_option int (py_digits 0 False (c # cs)))"

fun py_str_nat :: "nat \<Rightarrow> string" where
  "py_str_nat n = (if n < 10 then [digit_char n] else py_str_nat (n div 10) @ [digit_char (n mod 10)])"

definition py_str :: "int \<Rightarrow> string" where
  "py_str i = (if i < 0 then CHR ''-'' # py_str_nat (nat (- i)) else py_str_nat (nat i))"

definition lower_char :: "char \<Rightarrow> char" where
  "lower_char c =
     (case map_of (zip ''ABCDEFGHIJKLMNOPQRSTUVWXYZ'' ''abcdefghijklmnopqrstuvwxyz'') c of
        Some l \<Rightarrow> l
      | None \<Rightarrow> c)"

definition py_lower :: "string \<Rightarrow> string" where
  "py_lower s = map lower_char s"

text \<open>\<^verbatim>\<open>sub in s\<close> on strings.\<close>

fun py_in :: "string \<Rightarrow> string \<Rightarrow> bool" where
  "py_in sub [] = (sub = [])"
| "py_in sub (c # cs) = (prefix sub (c # cs) \<or> py_in sub cs)"

text \<open>
  \<^verbatim>\<open>re.findall(r'(\d{4})', s)\<close>: the non-overlapping runs of four digits, scanned from
  the left; after a match the scan resumes behind it.
\<close>

fun findall_d4 :: "string \<Rightarrow> string list" where
  "findall_d4 (a # b # c # d # rest) =
     (if is_digit a \<and> is_digit b \<and> is_digit c \<and> is_digit d
      then [a, b, c, d] # findall_d4 rest
      else findall_d4 (b # c # d # rest))"
| "findall_d4 s = []"

text \<open>
  Line 98 as it runs on a cell of the column: \<^verbatim>\<open>re.findall\<close> raises \<^verbatim>\<open>TypeError\<close> on a
  value that is no string.
\<close>

definition re_findall :: "label_cell \<Rightarrow> py_error + string list" where
  "re_findall pair = (case pair of Text s \<Rightarrow> Inr (findall_d4 s) | NotText s \<Rightarrow> Inl TypeError)"

definition label_str :: "label_cell \<Rightarrow> string" where
  "label_str pair = (case pair of Text s \<Rightarrow> s | NotText s \<Rightarrow> s)"

subsection \<open>Paths\<close>

definition os_path_basename :: "string \<Rightarrow> string" where
  "os_path_basename p = rev (takeWhile (\<lambda>c. c \<noteq> CHR ''/'') (rev p))"

text \<open>
  The root of \<^verbatim>\<open>os.path.splitext\<close> on a name without separator: the name up to its last
  dot, unless only dots come before that dot.
\<close>

definition splitext_root :: "string \<Rightarrow> string" where
  "splitext_root b =
     (if CHR ''.'' \<in> set b then
        (let stem = rev (tl (dropWhile (\<lambda>c. c \<noteq> CHR ''.'') (rev b)))
         in if \<exists>c \<in> set stem. c \<noteq> CHR ''.'' then stem else b)
      else b)"

definition os_path_join :: "string \<Rightarrow> string \<Rightarrow> string" where
  "os_path_join a b =
     (if b \<noteq> [] \<and> hd b = CHR ''/'' then b
      else if a = [] \<or> last a = CHR ''/'' then a @ b
      else a @ ''/'' @ b)"

subsection \<open>Workbooks and the state of a run\<close>

text \<open>
  The summary sheet as \<^verbatim>\<open>read_excel\<close> returns it: the \<^verbatim>\<open>Year_Pair\<close> column and the
  value columns in sheet order. A raw-data sheet: its columns in sheet order, header
  and values.
\<close>

record wide_df =
  year_pairs :: "label_cell list"
  value_cols :: "(string \<times> pyfloat list) list"

type_synonym raw_df = "(string \<times> pyfloat list) list"

record workbook =
  summary_sheets :: "string \<rightharpoonup> wide_df"
  raw_sheets :: "string \<rightharpoonup> raw_df"

type_synonym filesystem = "string \<rightharpoonup> workbook"

record args =
  input :: string
  sheet_summary :: string
  method_opt :: string
  threshold :: pyfloat
  zscore :: pyfloat
  iqr_factor :: pyfloat
  output_dir :: string

record correction =
  corr_Year_Pair :: label_cell
  corr_Sensor :: int
  OrigDiff :: pyfloat
  OffsetApplied :: pyfloat
  CorrectedFile :: string

datatype io_event =
    MakeDirs string
  | ReadExcel string string
  | ToExcel string string raw_df
  | SummaryToExcel string "correction list"
  | SaveFig string "string list"
  | Print "correction list"

datatype log_line = Info string | Warning string

record run_state =
  corrections :: "correction list"
  io :: "io_event list"
  logged :: "log_line list"

definition init_state :: run_state where
  "init_state = \<lparr>corrections = [], io = [], logged = []\<rparr>"

definition do_io :: "io_event \<Rightarrow> run_state \<Rightarrow> run_state" where
  "do_io e st = st\<lparr>io := io st @ [e]\<rparr>"

definition do_log :: "log_line \<Rightarrow> run_state \<Rightarrow> run_state" where
  "do_log l st = st\<lparr>logged := logged st @ [l]\<rparr>"

text \<open>The file a path holds after a trace of events: what the last write to it left.\<close>

fun written_file :: "io_event list \<Rightarrow> string \<Rightarrow> (string \<times> raw_df) option" where
  "written_file [] p = None"
| "written_file (ToExcel q sheet df # es) p =
     (case written_file es p of
        Some f \<Rightarrow> Some f
      | None \<Rightarrow> if q = p then Some (sheet, df) else None)"
| "written_file (e # es) p = written_file es p"

subsection \<open>Reshaping\<close>

text \<open>
  \<^verbatim>\<open>melt(id_vars='Year_Pair', var_name='Sensor', value_name='Difference')\<close>: one row per
  value column and sheet row, column by column.
\<close>

definition melt :: "wide_df \<Rightarrow> diff_row list" where
  "melt w =
     concat (map (\<lambda>(name, vals).
               map (\<lambda>(p, v). \<lparr>Year_Pair = p, Sensor = name, Difference = v\<rparr>)
                   (zip (year_pairs w) vals))
             (value_cols w))"

subsection \<open>The correction of one outlier\<close>

definition read_raw :: "filesystem \<Rightarrow> string \<Rightarrow> string \<Rightarrow> raw_df option" where
  "read_raw fs path sheet = (case fs path of None \<Rightarrow> None | Some wb \<Rightarrow> raw_sheets wb sheet)"

definition raw_sheet_name :: "int \<Rightarrow> string" where
  "raw_sheet_name next_year = ''Raw Data '' @ py_str next_year"

definition sensor_col :: "int \<Rightarrow> string" where
  "sensor_col sensor = ''V'' @ py_str sensor"

definition out_file_name :: "args \<Rightarrow> int \<Rightarrow> string" where
  "out_file_name a next_year =
     os_path_join (output_dir a)
       (splitext_root (os_path_basename (input a)) @ ''_'' @ py_str next_year @ ''_corrected.xlsx'')"

definition apply_offset :: "string \<Rightarrow> pyfloat \<Rightarrow> raw_df \<Rightarrow> raw_df" where
  "apply_offset col offset df =
     map (\<lambda>(name, vals). if name = col then (name, map (\<lambda>v. float64_add v offset) vals) else (name, vals)) df"

text \<open>
  Lines 110 to 112: the last column goes when its header contains \<^verbatim>\<open>time\<close> in any
  case (\<^verbatim>\<open>df_raw.iloc[:, :-1]\<close>).
\<close>

definition drop_time_col :: "raw_df \<Rightarrow> raw_df" where
  "drop_time_col df_raw =
     (let last_col = fst (last df_raw)
      in if py_in ''time'' (py_lower last_col) then butlast df_raw else df_raw)"

text \<open>Line 96: \<^verbatim>\<open>int(row['Sensor'].split()[-1])\<close>.\<close>

definition parse_sensor :: "string \<Rightarrow> py_error + int" where
  "parse_sensor s =
     (case py_split s of
        [] \<Rightarrow> Inl IndexError
      | t # ts \<Rightarrow>
          (case py_int (last (t # ts)) of
             None \<Rightarrow> Inl (ValueError (last (t # ts)))
           | Some sensor \<Rightarrow> Inr sensor))"

definition sheet_warning :: "string \<Rightarrow> log_line" where
  "sheet_warning sheet = Warning (''Could not read sheet '' @ [CHR 0x27] @ sheet @ [CHR 0x27])"

text \<open>
  The body of the loop of \<^verbatim>\<open>main\<close> for one row of the outliers. \<open>Inl\<close> is an
  exception that leaves the loop, with the state it leaves behind; \<open>Inr\<close> is the state
  after the row, whether corrected or skipped by \<^verbatim>\<open>continue\<close>. The only
  \<^verbatim>\<open>try\<close> of the loop is around \<^verbatim>\<open>read_excel\<close>: the exceptions of lines 96, 98,
  110 and 116 leave the loop. The text of the caught exception
  is left out of the warning.
\<close>

definition correct_row ::
  "args \<Rightarrow> filesystem \<Rightarrow> diff_row \<Rightarrow> run_state \<Rightarrow> (py_error \<times> run_state) + run_state" where
  "correct_row a fs row st =
     (let pair = Year_Pair row in
      case parse_sensor (Sensor row) of
        Inl e \<Rightarrow> Inl (e, st)
      | Inr sensor \<Rightarrow>
      (let diff = Difference row
       in case re_findall pair of
            Inl e \<Rightarrow> Inl (e, st)
          | Inr years \<Rightarrow>
          if length years \<noteq> 2 then Inr st
          else
      (case py_int (hd years) of
        None \<Rightarrow> Inl (ValueError (hd years), st)
      | Some next_year \<Rightarrow>
      (let sheet = raw_sheet_name next_year;
           st1 = do_io (ReadExcel (input a) sheet) st
       in case read_raw fs (input a) sheet of
            None \<Rightarrow> Inr (do_log (sheet_warning sheet) st1)
          | Some df_raw \<Rightarrow>
              if df_raw = [] then Inl (IndexError, st1)
              else
                (let df_raw1 = drop_time_col df_raw;
                     col = sensor_col sensor;
                     offset = fl_neg diff
                 in if col \<notin> set (map fst df_raw1) then Inl (KeyError col, st1)
                    else
                      (let df_raw2 = apply_offset col offset df_raw1;
                           out_file = out_file_name a next_year;
                           st2 = do_io (ToExcel out_file sheet df_raw2) st1
                       in Inr (st2\<lparr>corrections := corrections st2 @
                                 [\<lparr>corr_Year_Pair = pair, corr_Sensor = sensor, OrigDiff = diff,
                                   OffsetApplied = offset, CorrectedFile = out_file\<rparr>]\<rparr>)))))))"

fun process ::
  "args \<Rightarrow> filesystem \<Rightarrow> diff_row list \<Rightarrow> run_state \<Rightarrow> (py_error \<times> run_state) + run_state" where
  "process a fs [] st = Inr st"
| "process a fs (row # rows) st =
     (case correct_row a fs row st of
        Inl e \<Rightarrow> Inl e
      | Inr st1 \<Rightarrow> process a fs rows st1)"

subsection \<open>The batch pass\<close>

text \<open>
  \<^verbatim>\<open>parse_args\<close>: the option values are taken as given; the check modelled is
  \<^verbatim>\<open>choices=['abs','zscore','iqr']\<close>, on which \<^verbatim>\<open>argparse\<close> exits with status 2.
\<close>

definition parse_args :: "args \<Rightarrow> py_error + args" where
  "parse_args argv =
     (if method_opt argv \<in> set [''abs'', ''zscore'', ''iqr''] then Inr argv else Inl (SystemExit 2))"

definition read_summary :: "filesystem \<Rightarrow> string \<Rightarrow> string \<Rightarrow> wide_df option" where
  "read_summary fs path sheet = (case fs path of None \<Rightarrow> None | Some wb \<Rightarrow> summary_sheets wb sheet)"

text \<open>The tick labels of the plot: \<^verbatim>\<open>f"{r['Year_Pair']}/S{int(r['Sensor'])}"\<close>.\<close>

fun plot_labels :: "diff_row list \<Rightarrow> py_error + string list" where
  "plot_labels [] = Inr []"
| "plot_labels (r # rs) =
     (case py_int (Sensor r) of
        None \<Rightarrow> Inl (ValueError (Sensor r))
      | Some n \<Rightarrow>
          (case plot_labels rs of
             Inl e \<Rightarrow> Inl e
           | Inr ls \<Rightarrow> Inr ((label_str (Year_Pair r) @ ''/S'' @ py_str n) # ls)))"

definition main :: "args \<Rightarrow> filesystem \<Rightarrow> (py_error \<times> run_state) + run_state" where
  "main argv fs =
     (case parse_args argv of
        Inl e \<Rightarrow> Inl (e, init_state)
      | Inr a \<Rightarrow>
      (let st1 = do_io (MakeDirs (output_dir a)) init_state;
           st2 = do_log (Info ''Loading year-to-year differences'') st1;
           st3 = do_io (ReadExcel (input a) (sheet_summary a)) st2
       in case read_summary fs (input a) (sheet_summary a) of
            None \<Rightarrow> Inl (ReadError (sheet_summary a), st3)
          | Some diff_df \<Rightarrow>
      (let long_df = melt diff_df
       in case detect_outliers long_df (method_opt a) (threshold a) (zscore a) (iqr_factor a) of
            Inl e \<Rightarrow> Inl (e, st3)
          | Inr outliers \<Rightarrow>
      (let st4 = do_log (Info (''Detected '' @ py_str (int (length outliers)) @ '' outliers using ''
                                 @ [CHR 0x27] @ method_opt a @ [CHR 0x27] @ '' method'')) st3
       in case process a fs outliers st4 of
            Inl e \<Rightarrow> Inl e
          | Inr st5 \<Rightarrow>
      (let corr_file = os_path_join (output_dir a) ''corrections_summary.xlsx'';
           st6 = do_io (SummaryToExcel corr_file (corrections st5)) st5;
           st7 = do_log (Info (''Saved corrections summary to '' @ [CHR 0x27] @ corr_file @ [CHR 0x27])) st6
       in case plot_labels outliers of
            Inl e \<Rightarrow> Inl (e, st7)
          | Inr labels \<Rightarrow>
      (let plot_file = os_path_join (output_dir a) ''outliers_plot.png'';
           st8 = do_io (SaveFig plot_file labels) st7;
           st9 = do_log (Info (''Saved plot to '' @ [CHR 0x27] @ plot_file @ [CHR 0x27])) st8
       in Inr (do_io (Print (corrections st9)) st9)))))))"

subsection \<open>Notions used in the statements\<close>

text \<open>
  The number a year token denotes, the state a step leaves, raised or not, and the
  target year of a row: \<^verbatim>\<open>int(years[0])\<close> where line 98 finds a token.
\<close>

definition token_value :: "string \<Rightarrow> nat" where
  "token_value y = foldl (\<lambda>acc c. 10 * acc + digit_val c) 0 y"

definition target_year :: "diff_row \<Rightarrow> int option" where
  "target_year row =
     (case re_findall (Year_Pair row) of
        Inl e \<Rightarrow> None
      | Inr years \<Rightarrow> (case years of [] \<Rightarrow> None | y # ys \<Rightarrow> py_int y))"

definition final_state :: "(py_error \<times> run_state) + run_state \<Rightarrow> run_state" where
  "final_state r = (case r of Inl (e, st) \<Rightarrow> st | Inr st \<Rightarrow> st)"

subsection \<open>Sample inputs\<close>

definition row_a :: diff_row where
  "row_a = \<lparr>Year_Pair = Text ''2020-2021'', Sensor = ''Sensor 3'', Difference = Some 1\<rparr>"

definition row_b :: diff_row where
  "row_b = \<lparr>Year_Pair = Text ''2021-2020'', Sensor = ''Sensor 1'', Difference = Some (- 2)\<rparr>"

definition row_c :: diff_row where
  "row_c = \<lparr>Year_Pair = Text ''2019-2020'', Sensor = ''Sensor 2'', Difference = None\<rparr>"

definition row_d :: diff_row where
  "row_d = \<lparr>Year_Pair = Text ''2019-2020-2021'', Sensor = ''Sensor 2'', Difference = Some 5\<rparr>"

definition row_e :: diff_row where
  "row_e = \<lparr>Year_Pair = Text ''2020-2021'', Sensor = ''Sensor 9'', Difference = Some 1\<rparr>"

definition row_f :: diff_row where
  "row_f = \<lparr>Year_Pair = Text ''2018-2019'', Sensor = ''Sensor 1'', Difference = Some 4\<rparr>"

definition row_g :: diff_row where
  "row_g = \<lparr>Year_Pair = Text ''2020-2019'', Sensor = ''Sensor 1'', Difference = Some 7\<rparr>"

definition row_h :: diff_row where
  "row_h = \<lparr>Year_Pair = NotText ''2020'', Sensor = ''Sensor 1'', Difference = Some 1\<rparr>"

definition bare_year_fs :: filesystem where
  "bare_year_fs =
     [''data/Seatek.xlsx'' \<mapsto>
        \<lparr>summary_sheets =
           [''Year-to-Year Differences'' \<mapsto>
              \<lparr>year_pairs = [NotText ''2020''], value_cols = [(''Sensor 1'', [Some 1])]\<rparr>],
         raw_sheets = Map.empty\<rparr>]"

text \<open>
  The float64 values nearest to 0.1 and to 0.2, and a sheet and an outlier that hold
  them.
\<close>

definition tenth :: real where
  "tenth = 3602879701896397 / 36028797018963968"

definition fifth :: real where
  "fifth = 3602879701896397 / 18014398509481984"

definition row_t :: diff_row where
  "row_t = \<lparr>Year_Pair = Text ''2020-2021'', Sensor = ''Sensor 1'', Difference = Some (- fifth)\<rparr>"

definition tenth_fs :: filesystem where
  "tenth_fs =
     [''data/Seatek.xlsx'' \<mapsto>
        \<lparr>summary_sheets = Map.empty,
         raw_sheets = [''Raw Data 2020'' \<mapsto> [(''V1'', [Some tenth])]]\<rparr>]"

definition sample_summary :: wide_df where
  "sample_summary =
     \<lparr>year_pairs = [Text ''2020-2021''],
      value_cols = [(''Sensor 9'', [Some 1]), (''Sensor 1'', [Some 1])]\<rparr>"

definition sample_raw_2020 :: raw_df where
  "sample_raw_2020 =
     [(''V1'', [Some 10, Some 20]), (''V3'', [Some 5, None]), (''Timestamp'', [Some 0, Some 1])]"

definition sample_raw_2021 :: raw_df where
  "sample_raw_2021 = [(''V1'', [Some 100, Some 200]), (''V3'', [Some 50, Some 60])]"

definition sample_wb :: workbook where
  "sample_wb =
     \<lparr>summary_sheets = [''Year-to-Year Differences'' \<mapsto> sample_summary],
      raw_sheets = [''Raw Data 2020'' \<mapsto> sample_raw_2020, ''Raw Data 2021'' \<mapsto> sample_raw_2021]\<rparr>"

definition sample_fs :: filesystem where
  "sample_fs = [''data/Seatek.xlsx'' \<mapsto> sample_wb]"

definition sample_args :: args where
  "sample_args =
     \<lparr>input = ''data/Seatek.xlsx'', sheet_summary = ''Year-to-Year Differences'',
      method_opt = ''abs'', threshold = Some (1 / 10), zscore = Some 3, iqr_factor = Some (3 / 2),
      output_dir = ''output''\<rparr>"

definition corr_a :: correction where
  "corr_a =
     \<lparr>corr_Year_Pair = Text ''2020-2021'', corr_Sensor = 3, OrigDiff = Some 1,
      OffsetApplied = Some (- 1), CorrectedFile = ''output/Seatek_2020_corrected.xlsx''\<rparr>"

definition corr_g :: correction where
  "corr_g =
     \<lparr>corr_Year_Pair = Text ''2020-2019'', corr_Sensor = 1, OrigDiff = Some 7,
      OffsetApplied = Some (- 7), CorrectedFile = ''output/Seatek_2020_corrected.xlsx''\<rparr>"

definition state_a :: run_state where
  "state_a =
     \<lparr>corrections = [corr_a],
      io = [ReadExcel ''data/Seatek.xlsx'' ''Raw Data 2020'',
            ToExcel ''output/Seatek_2020_corrected.xlsx'' ''Raw Data 2020''
              [(''V1'', [Some 10, Some 20]), (''V3'', [Some 4, None])]],
      logged = []\<rparr>"

definition state_g :: run_state where
  "state_g =
     \<lparr>corrections = [corr_a, corr_g],
      io = [ReadExcel ''data/Seatek.xlsx'' ''Raw Data 2020'',
            ToExcel ''output/Seatek_2020_corrected.xlsx'' ''Raw Data 2020''
              [(''V1'', [Some 10, Some 20]), (''V3'', [Some 4, None])],
            ReadExcel ''data/Seatek.xlsx'' ''Raw Data 2020'',
            ToExcel ''output/Seatek_2020_corrected.xlsx'' ''Raw Data 2020''
              [(''V1'', [Some 3, Some 13]), (''V3'', [Some 5, None])]],
      logged = []\<rparr>"

definition z1 :: diff_row where
  "z1 = \<lparr>Year_Pair = Text ''2018-2019'', Sensor = ''Sensor 1'', Difference = Some 1\<rparr>"

definition z2 :: diff_row where
  "z2 = \<lparr>Year_Pair = Text ''2019-2020'', Sensor = ''Sensor 1'', Difference = Some 2\<rparr>"

definition z3 :: diff_row where
  "z3 = \<lparr>Year_Pair = Text ''2020-2021'', Sensor = ''Sensor 1'', Difference = Some 3\<rparr>"

definition k1 :: diff_row where
  "k1 = \<lparr>Year_Pair = Text ''2019-2020'', Sensor = ''Sensor 1'', Difference = Some 1\<rparr>"

definition k2 :: diff_row where
  "k2 = \<lparr>Year_Pair = Text ''2020-2021'', Sensor = ''Sensor 1'', Difference = Some 1\<rparr>"

section \<open>Properties\<close>

subsection \<open>Evaluation\<close>

lemmas string_defs =
  py_split_def is_space_def py_int_def py_strip_def is_digit_def digit_val_def py_str_def
  digit_char_def py_lower_def lower_char_def os_path_join_def splitext_root_def
  os_path_basename_def parse_sensor_def raw_sheet_name_def sensor_col_def out_file_name_def
  token_value_def re_findall_def label_str_def

lemmas sample_defs =
  row_a_def row_b_def row_c_def row_d_def row_e_def row_f_def row_g_def row_h_def
  bare_year_fs_def sample_args_def
  sample_summary_def sample_raw_2020_def sample_raw_2021_def sample_wb_def sample_fs_def

lemmas run_defs =
  correct_row_def init_state_def read_raw_def read_summary_def do_io_def do_log_def
  drop_time_col_def apply_offset_def float64_add_def fl_neg_def sheet_warning_def final_state_def
  Let_def

subsection \<open>Rounding\<close>

text \<open>Integers below \<open>2 ^ 53\<close> in magnitude are float64 values: rounding leaves them.\<close>

lemma round_half_even_of_int: "round_half_even (of_int n) = n"
  by (simp add: round_half_even_def)

lemma pow2_powr: "pow2 e = 2 powr (of_int e)"
  unfolding pow2_def by (simp add: powr_real_of_int field_simps)

lemma float64_exp_eq:
  assumes "pow2 k \<le> \<bar>x\<bar>" and "\<bar>x\<bar> < pow2 (k + 1)"
  shows "float64_exp x = max (k - 52) (- 1074)"
proof -
  have pos: "0 < \<bar>x\<bar>"
    using assms(1) by (smt (verit) pow2_powr powr_gt_zero)
  have "\<lfloor>log 2 \<bar>x\<bar>\<rfloor> = k"
    using assms pos by (simp add: floor_log_eq_powr_iff pow2_powr)
  then show ?thesis by (simp add: float64_exp_def)
qed

lemma float64_exp_int:
  assumes "k \<noteq> 0" and "\<bar>k\<bar> < 2 ^ 53"
  shows "- 52 \<le> float64_exp (of_int k) \<and> float64_exp (of_int k) \<le> 0"
proof -
  have "1 \<le> \<bar>k\<bar>"
    using assms(1) by presburger
  then have "real_of_int 1 \<le> real_of_int \<bar>k\<bar>"
    by (simp only: of_int_le_iff)
  then have one: "1 \<le> \<bar>real_of_int k\<bar>"
    by simp
  have "real_of_int \<bar>k\<bar> < real_of_int (2 ^ 53)"
    using assms(2) by (simp only: of_int_less_iff)
  then have lt: "\<bar>real_of_int k\<bar> < 2 ^ 53"
    by simp
  have "0 \<le> log 2 \<bar>real_of_int k\<bar>"
    using one by simp
  then have lo: "0 \<le> \<lfloor>log 2 \<bar>real_of_int k\<bar>\<rfloor>"
    by simp
  have "log 2 \<bar>real_of_int k\<bar> < 53"
    using one lt by (simp add: log_less_iff)
  then have hi: "\<lfloor>log 2 \<bar>real_of_int k\<bar>\<rfloor> < 53"
    by (simp add: floor_less_iff)
  from lo hi show ?thesis
    by (simp add: float64_exp_def)
qed

lemma round64_of_int:
  assumes "\<bar>k\<bar> < 2 ^ 53"
  shows "round64 (of_int k) = of_int k"
proof (cases "k = 0")
  case True
  then show ?thesis by (simp add: round64_def)
next
  case False
  define e where "e = float64_exp (of_int k)"
  from float64_exp_int [OF False assms] have e: "- 52 \<le> e" "e \<le> 0"
    by (simp_all add: e_def)
  define j where "j = nat (- e)"
  have p: "pow2 e = 1 / 2 ^ j"
    using e by (cases "e = 0") (simp_all add: pow2_def j_def)
  have "real_of_int k / pow2 e = of_int (k * 2 ^ j)"
    by (simp add: p)
  then have "round_half_even (real_of_int k / pow2 e) = k * 2 ^ j"
    by (simp only: round_half_even_of_int)
  then have "of_int (round_half_even (real_of_int k / pow2 e)) * pow2 e = of_int k"
    by (simp add: p)
  with False show ?thesis
    by (simp add: round64_def e_def)
qed

lemma round64_numeral [simp]:
  "numeral n < (2 :: int) ^ 53 \<Longrightarrow> round64 (numeral n) = numeral n"
  using round64_of_int [of "numeral n"] by simp

lemma round64_neg_numeral [simp]:
  "numeral n < (2 :: int) ^ 53 \<Longrightarrow> round64 (- numeral n) = - numeral n"
  using round64_of_int [of "- numeral n"] by simp

lemma round64_0 [simp]: "round64 0 = 0"
  by (simp add: round64_def)

lemma round64_1 [simp]: "round64 1 = 1"
  using round64_of_int [of 1] by simp

subsection \<open>Year tokens\<close>

lemma findall_d4_tokens:
  "y \<in> set (findall_d4 s) \<Longrightarrow>
     \<exists>a b c d. y = [a, b, c, d] \<and> is_digit a \<and> is_digit b \<and> is_digit c \<and> is_digit d"
  by (induction s rule: findall_d4.induct) (auto split: if_splits)

lemma is_digit_plain:
  "is_digit c \<Longrightarrow> \<not> is_space c \<and> c \<noteq> CHR ''-'' \<and> c \<noteq> CHR ''+''"
  by (auto simp: is_digit_def is_space_def)

lemma digit_val_bound: "is_digit c \<Longrightarrow> digit_val c < 10"
  by (auto simp: is_digit_def digit_val_def)

lemma digit_char_val: "is_digit c \<Longrightarrow> digit_char (digit_val c) = c"
  by (auto simp: is_digit_def digit_val_def digit_char_def)

lemma digit_val_zero: "is_digit c \<Longrightarrow> c \<noteq> CHR ''0'' \<Longrightarrow> 0 < digit_val c"
  by (auto simp: is_digit_def digit_val_def)

lemma py_int_digits4:
  assumes "is_digit a" "is_digit b" "is_digit c" "is_digit d"
  shows "py_int [a, b, c, d] = Some (int (token_value [a, b, c, d]))"
proof -
  have "py_strip [a, b, c, d] = [a, b, c, d]"
    using assms by (simp add: py_strip_def is_digit_plain)
  then show ?thesis
    using assms by (simp add: py_int_def is_digit_plain token_value_def)
qed

lemma py_int_token:
  assumes "y \<in> set (findall_d4 s)"
  shows "py_int y = Some (int (token_value y))"
  using findall_d4_tokens [OF assms] py_int_digits4 by blast

lemma py_str_nat_small: "n < 10 \<Longrightarrow> py_str_nat n = [digit_char n]"
  by (subst py_str_nat.simps) simp

lemma py_str_nat_step:
  "0 < m \<Longrightarrow> d < 10 \<Longrightarrow> py_str_nat (10 * m + d) = py_str_nat m @ [digit_char d]"
  by (subst py_str_nat.simps) simp

lemma py_str_digits4:
  assumes "is_digit a" "is_digit b" "is_digit c" "is_digit d" "a \<noteq> CHR ''0''"
  shows "py_str (int (token_value [a, b, c, d])) = [a, b, c, d]"
proof -
  let ?A = "digit_val a" and ?B = "digit_val b" and ?C = "digit_val c" and ?D = "digit_val d"
  have bounds: "0 < ?A" "?A < 10" "?B < 10" "?C < 10" "?D < 10"
    using assms by (simp_all add: digit_val_bound digit_val_zero)
  have v: "token_value [a, b, c, d] = 10 * (10 * (10 * ?A + ?B) + ?C) + ?D"
    by (simp add: token_value_def)
  have s1: "py_str_nat ?A = [digit_char ?A]"
    using bounds by (intro py_str_nat_small)
  have s2: "py_str_nat (10 * ?A + ?B) = py_str_nat ?A @ [digit_char ?B]"
    using bounds by (intro py_str_nat_step)
  have s3: "py_str_nat (10 * (10 * ?A + ?B) + ?C) = py_str_nat (10 * ?A + ?B) @ [digit_char ?C]"
    using bounds by (intro py_str_nat_step) simp_all
  have s4: "py_str_nat (10 * (10 * (10 * ?A + ?B) + ?C) + ?D)
            = py_str_nat (10 * (10 * ?A + ?B) + ?C) @ [digit_char ?D]"
    using bounds by (intro py_str_nat_step) simp_all
  have "py_str_nat (token_value [a, b, c, d]) = [a, b, c, d]"
    unfolding v s4 s3 s2 s1 using assms by (simp add: digit_char_val)
  moreover have "py_str (int (token_value [a, b, c, d])) = py_str_nat (token_value [a, b, c, d])"
    unfolding py_str_def by simp
  ultimately show ?thesis by simp
qed

lemma py_str_token:
  assumes "y \<in> set (findall_d4 s)" "hd y \<noteq> CHR ''0''"
  shows "py_str (int (token_value y)) = y"
proof -
  from findall_d4_tokens [OF assms(1)] obtain a b c d where
    y: "y = [a, b, c, d]" and dg: "is_digit a" "is_digit b" "is_digit c" "is_digit d"
    by blast
  with assms(2) have "a \<noteq> CHR ''0''" by simp
  with dg show ?thesis unfolding y by (rule py_str_digits4)
qed

lemma re_findall_Inr:
  assumes "re_findall pair = Inr years"
  obtains s where "pair = Text s" and "findall_d4 s = years"
  using assms unfolding re_findall_def by (cases pair) simp_all

lemma py_int_year:
  assumes "re_findall pair = Inr years" and "y \<in> set years"
  shows "py_int y = Some (int (token_value y))"
  using assms py_int_token by (elim re_findall_Inr) blast

lemma py_str_year:
  assumes "re_findall pair = Inr years" and "y \<in> set years" and "hd y \<noteq> CHR ''0''"
  shows "py_str (int (token_value y)) = y"
  using assms py_str_token by (elim re_findall_Inr) blast

lemma target_year_hd:
  assumes "re_findall (Year_Pair row) = Inr years" and "length years = 2"
  shows "target_year row = py_int (hd years)"
  using assms unfolding target_year_def by (cases years) simp_all

subsection \<open>The loop body, case by case\<close>

lemma correct_row_Inr_cases:
  assumes "correct_row a fs row st = Inr st1"
  shows "\<exists>sensor years. parse_sensor (Sensor row) = Inr sensor \<and>
     re_findall (Year_Pair row) = Inr years \<and>
     ((length years \<noteq> 2 \<and> st1 = st) \<or>
      (\<exists>n. length years = 2 \<and> py_int (hd years) = Some n \<and>
         ((read_raw fs (input a) (raw_sheet_name n) = None \<and>
           st1 = do_log (sheet_warning (raw_sheet_name n)) (do_io (ReadExcel (input a) (raw_sheet_name n)) st)) \<or>
          (\<exists>df_raw. read_raw fs (input a) (raw_sheet_name n) = Some df_raw \<and> df_raw \<noteq> [] \<and>
             sensor_col sensor \<in> set (map fst (drop_time_col df_raw)) \<and>
             st1 = st\<lparr>io := io st @ [ReadExcel (input a) (raw_sheet_name n),
                                      ToExcel (out_file_name a n) (raw_sheet_name n)
                                        (apply_offset (sensor_col sensor) (fl_neg (Difference row)) (drop_time_col df_raw))],
                      corrections := corrections st @
                        [\<lparr>corr_Year_Pair = Year_Pair row, corr_Sensor = sensor, OrigDiff = Difference row,
                          OffsetApplied = fl_neg (Difference row), CorrectedFile = out_file_name a n\<rparr>]\<rparr>))))"
  using assms unfolding correct_row_def Let_def do_io_def do_log_def
  by (auto split: sum.splits option.splits if_splits)

text \<open>A row that adds a correction record went through the whole body.\<close>

lemma correct_row_success:
  assumes "correct_row a fs row st = Inr st1" and "corrections st1 = corrections st @ [c]"
  shows "\<exists>sensor years n df_raw.
      parse_sensor (Sensor row) = Inr sensor \<and>
      re_findall (Year_Pair row) = Inr years \<and> length years = 2 \<and>
      py_int (hd years) = Some n \<and>
      read_raw fs (input a) (raw_sheet_name n) = Some df_raw \<and> df_raw \<noteq> [] \<and>
      sensor_col sensor \<in> set (map fst (drop_time_col df_raw)) \<and>
      io st1 = io st @ [ReadExcel (input a) (raw_sheet_name n),
                        ToExcel (out_file_name a n) (raw_sheet_name n)
                          (apply_offset (sensor_col sensor) (fl_neg (Difference row)) (drop_time_col df_raw))] \<and>
      c = \<lparr>corr_Year_Pair = Year_Pair row, corr_Sensor = sensor, OrigDiff = Difference row,
           OffsetApplied = fl_neg (Difference row), CorrectedFile = out_file_name a n\<rparr>"
  using correct_row_Inr_cases [OF assms(1)] assms(2)
  by (elim exE conjE disjE) (simp_all add: do_io_def do_log_def)

subsection \<open>Selection by a mask\<close>

lemma select_mask_map: "select_mask df (map g df) = filter g df"
  unfolding select_mask_def by (induction df) simp_all

lemma fl_ge_abs_iff:
  "fl_ge (fl_abs d) thr \<longleftrightarrow> (\<exists>x t. d = Some x \<and> thr = Some t \<and> t \<le> \<bar>x\<bar>)"
  unfolding fl_ge_def fl_abs_def by (cases d; cases thr) simp_all

lemma fl_cmp_nan:
  "\<not> fl_ge (fl_abs None) t" "\<not> fl_ge (fl_abs (fl_sub None m)) t" "\<not> fl_lt None t" "\<not> fl_gt None t"
  by (simp_all add: fl_ge_def fl_abs_def fl_sub_def fl_lt_def fl_gt_def)

text \<open>Whatever the method, a record without a numeric difference is never flagged.\<close>

lemma detect_outliers_numeric:
  assumes "detect_outliers df m abs_thr z_thr iqr_fac = Inr out" and "r \<in> set out"
  shows "Difference r \<noteq> None"
proof
  assume nan: "Difference r = None"
  from assms show False
    unfolding detect_outliers_def Let_def
    by (auto simp: select_mask_map o_def nan fl_cmp_nan split: if_splits)
qed

text \<open>
  C1. With method \<^verbatim>\<open>abs\<close> the detector returns, in their order, exactly the records
  whose difference is a number \<open>x\<close> with \<open>\<bar>x\<bar>\<close> at least the threshold, for every table and
  every threshold (NaN included); and it returns no record when the threshold is above
  the absolute value of every difference of the table.
\<close>

theorem detect_abs_exact:
  "detect_outliers df ''abs'' thr z_thr iqr_fac =
     Inr (filter (\<lambda>r. \<exists>x t. Difference r = Some x \<and> thr = Some t \<and> t \<le> \<bar>x\<bar>) df)
   \<and> ((\<forall>r \<in> set df. \<forall>x. Difference r = Some x \<longrightarrow> (\<exists>t. thr = Some t \<and> \<bar>x\<bar> < t))
        \<longrightarrow> detect_outliers df ''abs'' thr z_thr iqr_fac = Inr [])"
proof -
  have sel: "detect_outliers df ''abs'' thr z_thr iqr_fac =
      Inr (filter (\<lambda>r. \<exists>x t. Difference r = Some x \<and> thr = Some t \<and> t \<le> \<bar>x\<bar>) df)"
    unfolding detect_outliers_def Let_def by (simp add: select_mask_map fl_ge_abs_iff o_def)
  have "filter (\<lambda>r. \<exists>x t. Difference r = Some x \<and> thr = Some t \<and> t \<le> \<bar>x\<bar>) df = []"
    if "\<forall>r \<in> set df. \<forall>x. Difference r = Some x \<longrightarrow> (\<exists>t. thr = Some t \<and> \<bar>x\<bar> < t)"
    using that by (fastforce simp: filter_empty_conv)
  with sel show ?thesis by simp
qed

theorem detect_abs_exact_witness:
  "detect_outliers [row_a, row_b, row_c] ''abs'' (Some 2) None None = Inr [row_b]
   \<and> detect_outliers [row_a, row_b, row_c] ''abs'' (Some 3) None None = Inr []"
proof -
  have h: "\<forall>r \<in> set [row_a, row_b, row_c]. \<forall>x. Difference r = Some x \<longrightarrow> (\<exists>t. Some 3 = Some t \<and> \<bar>x\<bar> < t)"
    by (simp add: row_a_def row_b_def row_c_def)
  have "detect_outliers [row_a, row_b, row_c] ''abs'' (Some 2) None None = Inr [row_b]"
    using detect_abs_exact [of "[row_a, row_b, row_c]" "Some 2" None None]
    by (simp add: row_a_def row_b_def row_c_def)
  moreover have "detect_outliers [row_a, row_b, row_c] ''abs'' (Some 3) None None = Inr []"
    using detect_abs_exact [of "[row_a, row_b, row_c]" "Some 3" None None] h by blast
  ultimately show ?thesis by blast
qed

subsection \<open>Unknown methods\<close>

text \<open>
  C9. For every table and every method string other than \<^verbatim>\<open>abs\<close>, \<^verbatim>\<open>zscore\<close> and
  \<^verbatim>\<open>iqr\<close>, the detector raises \<^verbatim>\<open>ValueError\<close> (it selects none of the three methods),
  and a run started with such a method ends in the argument parser, before any file
  system event and with nothing logged.
\<close>

theorem invalid_method_fatal:
  assumes "method_opt argv \<notin> {''abs'', ''zscore'', ''iqr''}"
  shows "detect_outliers df (method_opt argv) abs_thr z_thr iqr_fac
           = Inl (ValueError (''Unknown method: '' @ method_opt argv))
         \<and> main argv fs = Inl (SystemExit 2, init_state)
         \<and> io init_state = [] \<and> logged init_state = [] \<and> corrections init_state = []"
  using assms unfolding detect_outliers_def main_def parse_args_def init_state_def
  by simp

theorem invalid_method_fatal_witness:
  "method_opt (sample_args\<lparr>method_opt := ''mad''\<rparr>) \<notin> {''abs'', ''zscore'', ''iqr''}
   \<and> detect_outliers [row_a] ''mad'' None None None = Inl (ValueError ''Unknown method: mad'')
   \<and> main (sample_args\<lparr>method_opt := ''mad''\<rparr>) Map.empty = Inl (SystemExit 2, init_state)"
proof -
  have h: "method_opt (sample_args\<lparr>method_opt := ''mad''\<rparr>) \<notin> {''abs'', ''zscore'', ''iqr''}"
    by (simp add: sample_args_def)
  from invalid_method_fatal [OF h, of "[row_a]" None None None Map.empty] h
  show ?thesis by simp
qed

subsection \<open>Malformed labels\<close>

text \<open>
  C7, as claimed, fails: a label that holds one bare year and that \<^verbatim>\<open>read_excel\<close>
  delivers as a number has fewer than two year tokens, yet the outlier is not skipped:
  \<^verbatim>\<open>re.findall\<close> raises \<^verbatim>\<open>TypeError\<close> at line 98 and the run ends there, before any
  summary is written.
\<close>

theorem non_text_label_aborts_run:
  "main sample_args bare_year_fs =
     Inl (TypeError,
          \<lparr>corrections = [],
           io = [MakeDirs ''output'',
                 ReadExcel ''data/Seatek.xlsx'' ''Year-to-Year Differences''],
           logged = [Info ''Loading year-to-year differences'',
                     Info (''Detected 1 outliers using '' @ [CHR 0x27] @ ''abs'' @ [CHR 0x27] @ '' method'')]\<rparr>)"
  by (simp add: main_def parse_args_def detect_outliers_def melt_def select_mask_def
      fl_ge_def fl_abs_def run_defs string_defs sample_defs)

text \<open>
  C7, amended. For an outlier whose sensor label ends in an integer: when its year-pair
  label is a string that does not hold exactly two four-digit tokens, fewer or more, the
  outlier is skipped: the loop body returns the state it was given, so no correction
  record is added, no file is read or written, and the loop goes on with the remaining
  outliers; when its label is not a string, \<^verbatim>\<open>TypeError\<close> leaves the loop at this
  outlier, whatever outliers remain.
\<close>

theorem malformed_text_label_skipped:
  assumes "parse_sensor (Sensor row) = Inr sensor"
  shows "(\<forall>s. Year_Pair row = Text s \<and> length (findall_d4 s) \<noteq> 2 \<longrightarrow>
            correct_row a fs row st = Inr st
            \<and> process a fs (row # rows) st = process a fs rows st)
       \<and> (\<forall>v. Year_Pair row = NotText v \<longrightarrow>
            process a fs (row # rows) st = Inl (TypeError, st))"
proof -
  have skipped: "correct_row a fs row st = Inr st"
    if "Year_Pair row = Text s" and "length (findall_d4 s) \<noteq> 2" for s
    using assms that unfolding correct_row_def Let_def re_findall_def by simp
  have raised: "correct_row a fs row st = Inl (TypeError, st)"
    if "Year_Pair row = NotText v" for v
    using assms that unfolding correct_row_def Let_def re_findall_def by simp
  show ?thesis
    using skipped raised by auto
qed

theorem malformed_text_label_skipped_witness:
  "correct_row sample_args sample_fs row_d init_state = Inr init_state
   \<and> process sample_args sample_fs [row_d, row_d] init_state = Inr init_state
   \<and> process sample_args sample_fs [row_h, row_a] init_state = Inl (TypeError, init_state)"
proof -
  have sd: "parse_sensor (Sensor row_d) = Inr 2" and sh: "parse_sensor (Sensor row_h) = Inr 1"
    by (simp_all add: row_d_def row_h_def string_defs)
  have ld: "Year_Pair row_d = Text ''2019-2020-2021'' \<and> length (findall_d4 ''2019-2020-2021'') \<noteq> 2"
    by (simp add: row_d_def is_digit_def)
  have lh: "Year_Pair row_h = NotText ''2020''"
    by (simp add: row_h_def)
  from malformed_text_label_skipped [OF sd, of sample_args sample_fs init_state "[]"] ld
  have one: "correct_row sample_args sample_fs row_d init_state = Inr init_state"
    and "process sample_args sample_fs [row_d] init_state = Inr init_state"
    by auto
  moreover
  from malformed_text_label_skipped [OF sd, of sample_args sample_fs init_state "[row_d]"] ld
  have "process sample_args sample_fs [row_d, row_d] init_state
          = process sample_args sample_fs [row_d] init_state"
    by blast
  moreover
  from malformed_text_label_skipped [OF sh, of sample_args sample_fs init_state "[row_a]"] lh
  have "process sample_args sample_fs [row_h, row_a] init_state = Inl (TypeError, init_state)"
    by blast
  ultimately show ?thesis by simp
qed

subsection \<open>Errors of one outlier\<close>

text \<open>
  C3, as claimed, fails: with the sample workbook the first outlier is sensor 9, the
  sheet \<^verbatim>\<open>Raw Data 2020\<close> has no column \<^verbatim>\<open>V9\<close>, and the run ends with
  \<^verbatim>\<open>KeyError\<close>: the second outlier (sensor 1, whose column exists) is never processed
  and no summary is written.
\<close>

theorem missing_column_aborts_run:
  "main sample_args sample_fs =
     Inl (KeyError ''V9'',
          \<lparr>corrections = [],
           io = [MakeDirs ''output'',
                 ReadExcel ''data/Seatek.xlsx'' ''Year-to-Year Differences'',
                 ReadExcel ''data/Seatek.xlsx'' ''Raw Data 2020''],
           logged = [Info ''Loading year-to-year differences'',
                     Info (''Detected 2 outliers using '' @ [CHR 0x27] @ ''abs'' @ [CHR 0x27] @ '' method'')]\<rparr>)"
  by (simp add: main_def parse_args_def detect_outliers_def melt_def select_mask_def
      fl_ge_def fl_abs_def run_defs string_defs sample_defs)

text \<open>
  C3, amended. For an outlier of the schema whose label is a string with exactly two
  year tokens: when the
  target raw sheet cannot be read, the exception is caught, a warning is logged and the
  loop continues with the remaining outliers; when the sheet is read but the sensor's
  column is absent from it, \<^verbatim>\<open>KeyError\<close> leaves the loop at this outlier,
  whatever outliers remain.
\<close>

theorem sheet_failure_caught_missing_column_raised:
  assumes "parse_sensor (Sensor row) = Inr sensor"
    and "re_findall (Year_Pair row) = Inr [y1, y2]"
  shows "(read_raw fs (input a) (raw_sheet_name (int (token_value y1))) = None \<longrightarrow>
            process a fs (row # rows) st =
              process a fs rows
                (do_log (sheet_warning (raw_sheet_name (int (token_value y1))))
                   (do_io (ReadExcel (input a) (raw_sheet_name (int (token_value y1)))) st)))
       \<and> (\<forall>df_raw. read_raw fs (input a) (raw_sheet_name (int (token_value y1))) = Some df_raw
              \<and> df_raw \<noteq> [] \<and> sensor_col sensor \<notin> set (map fst (drop_time_col df_raw)) \<longrightarrow>
            process a fs (row # rows) st =
              Inl (KeyError (sensor_col sensor),
                   do_io (ReadExcel (input a) (raw_sheet_name (int (token_value y1)))) st))"
proof -
  have y: "py_int y1 = Some (int (token_value y1))"
    using assms(2) by (rule py_int_year) simp
  have caught: "correct_row a fs row st =
      Inr (do_log (sheet_warning (raw_sheet_name (int (token_value y1))))
             (do_io (ReadExcel (input a) (raw_sheet_name (int (token_value y1)))) st))"
    if "read_raw fs (input a) (raw_sheet_name (int (token_value y1))) = None"
    using assms y that unfolding correct_row_def Let_def by simp
  have raised: "correct_row a fs row st =
      Inl (KeyError (sensor_col sensor),
           do_io (ReadExcel (input a) (raw_sheet_name (int (token_value y1)))) st)"
    if "read_raw fs (input a) (raw_sheet_name (int (token_value y1))) = Some df_raw"
      and "df_raw \<noteq> []" and "sensor_col sensor \<notin> set (map fst (drop_time_col df_raw))"
    for df_raw
    using assms y that unfolding correct_row_def Let_def by simp
  show ?thesis
    using caught raised by auto
qed

theorem sheet_failure_caught_missing_column_raised_witness:
  "process sample_args sample_fs [row_f, row_d] init_state =
     Inr \<lparr>corrections = [],
          io = [ReadExcel ''data/Seatek.xlsx'' ''Raw Data 2018''],
          logged = [sheet_warning ''Raw Data 2018'']\<rparr>
   \<and> process sample_args sample_fs [row_e, row_a] init_state =
     Inl (KeyError ''V9'',
          \<lparr>corrections = [], io = [ReadExcel ''data/Seatek.xlsx'' ''Raw Data 2020''], logged = []\<rparr>)"
proof -
  have sf: "parse_sensor (Sensor row_f) = Inr 1" and se: "parse_sensor (Sensor row_e) = Inr 9"
    by (simp_all add: row_f_def row_e_def string_defs)
  have yf: "re_findall (Year_Pair row_f) = Inr [''2018'', ''2019'']"
    and ye: "re_findall (Year_Pair row_e) = Inr [''2020'', ''2021'']"
    by (simp_all add: row_f_def row_e_def re_findall_def is_digit_def)
  have nf: "read_raw sample_fs (input sample_args) (raw_sheet_name (int (token_value ''2018''))) = None"
    by (simp add: run_defs string_defs sample_defs)
  have ne: "read_raw sample_fs (input sample_args) (raw_sheet_name (int (token_value ''2020'')))
              = Some sample_raw_2020
            \<and> sample_raw_2020 \<noteq> []
            \<and> sensor_col 9 \<notin> set (map fst (drop_time_col sample_raw_2020))"
    by (simp add: run_defs string_defs sample_defs)
  have tail: "process sample_args sample_fs [row_d] st = Inr st" for st
    by (simp add: run_defs string_defs sample_defs)
  from sheet_failure_caught_missing_column_raised [OF sf yf, of sample_fs sample_args "[row_d]" init_state] nf
  have "process sample_args sample_fs [row_f, row_d] init_state =
          Inr (do_log (sheet_warning (raw_sheet_name (int (token_value ''2018''))))
                 (do_io (ReadExcel (input sample_args) (raw_sheet_name (int (token_value ''2018'')))) init_state))"
    by (simp only: tail)
  moreover
  from sheet_failure_caught_missing_column_raised [OF se ye, of sample_fs sample_args "[row_a]" init_state] ne
  have "process sample_args sample_fs [row_e, row_a] init_state =
          Inl (KeyError (sensor_col 9),
               do_io (ReadExcel (input sample_args) (raw_sheet_name (int (token_value ''2020'')))) init_state)"
    by blast
  ultimately show ?thesis
    by (simp add: run_defs string_defs sample_defs)
qed

subsection \<open>The target sheet\<close>

text \<open>
  C6. For an outlier of the schema whose label is a string with exactly two year tokens, in either
  chronological order, the step targets the sheet \<^verbatim>\<open>Raw Data n\<close>, \<open>n\<close> the number the
  leftmost token denotes (the token itself when it has no leading zero): that sheet is
  the one read, the only sheet of the workbook the step depends on, and the sheet name
  of the file written, if one is written.
\<close>

theorem target_sheet_is_leftmost_year:
  assumes "parse_sensor (Sensor row) = Inr sensor"
    and "re_findall (Year_Pair row) = Inr [y1, y2]"
  shows "py_int y1 = Some (int (token_value y1))
       \<and> (hd y1 \<noteq> CHR ''0'' \<longrightarrow> raw_sheet_name (int (token_value y1)) = ''Raw Data '' @ y1)
       \<and> (\<exists>es. io (final_state (correct_row a fs row st))
                  = io st @ ReadExcel (input a) (raw_sheet_name (int (token_value y1))) # es
              \<and> (es = [] \<or> (\<exists>p df. es = [ToExcel p (raw_sheet_name (int (token_value y1))) df])))
       \<and> (\<forall>fs'. read_raw fs' (input a) (raw_sheet_name (int (token_value y1)))
                   = read_raw fs (input a) (raw_sheet_name (int (token_value y1)))
              \<longrightarrow> correct_row a fs' row st = correct_row a fs row st)"
proof -
  let ?sheet = "raw_sheet_name (int (token_value y1))"
  have y: "py_int y1 = Some (int (token_value y1))"
    using assms(2) by (rule py_int_year) simp
  have name: "?sheet = ''Raw Data '' @ y1" if "hd y1 \<noteq> CHR ''0''"
    using py_str_year [OF assms(2) _ that] by (simp add: raw_sheet_name_def)
  have events: "\<exists>es. io (final_state (correct_row a fs row st))
                  = io st @ ReadExcel (input a) ?sheet # es
              \<and> (es = [] \<or> (\<exists>p df. es = [ToExcel p ?sheet df]))"
    using assms y unfolding correct_row_def Let_def final_state_def do_io_def do_log_def
    by (simp split: option.split)
  have only: "correct_row a fs' row st = correct_row a fs row st"
    if "read_raw fs' (input a) ?sheet = read_raw fs (input a) ?sheet" for fs'
    using assms y that unfolding correct_row_def Let_def by simp
  from y name events only show ?thesis by blast
qed

theorem target_sheet_is_leftmost_year_witness:
  "py_int ''2021'' = Some (int (token_value ''2021''))
   \<and> raw_sheet_name (int (token_value ''2021'')) = ''Raw Data 2021''
   \<and> io (final_state (correct_row sample_args sample_fs row_b init_state))
       = [ReadExcel ''data/Seatek.xlsx'' ''Raw Data 2021'',
          ToExcel ''output/Seatek_2021_corrected.xlsx'' ''Raw Data 2021''
            [(''V1'', [Some 102, Some 202]), (''V3'', [Some 50, Some 60])]]"
proof -
  have s: "parse_sensor (Sensor row_b) = Inr 1"
    by (simp add: row_b_def string_defs)
  have y: "re_findall (Year_Pair row_b) = Inr [''2021'', ''2020'']"
    by (simp add: row_b_def re_findall_def is_digit_def)
  have z: "hd ''2021'' \<noteq> CHR ''0''"
    by simp
  note t = target_sheet_is_leftmost_year [OF s y, of sample_args sample_fs init_state]
  from t have "py_int ''2021'' = Some (int (token_value ''2021''))"
    by blast
  moreover from t z have "raw_sheet_name (int (token_value ''2021'')) = ''Raw Data '' @ ''2021''"
    by blast
  moreover have "io (final_state (correct_row sample_args sample_fs row_b init_state))
       = [ReadExcel ''data/Seatek.xlsx'' ''Raw Data 2021'',
          ToExcel ''output/Seatek_2021_corrected.xlsx'' ''Raw Data 2021''
            [(''V1'', [Some 102, Some 202]), (''V3'', [Some 50, Some 60])]]"
    by (simp add: run_defs string_defs sample_defs)
  ultimately show ?thesis by simp
qed

subsection \<open>The offset\<close>

lemma apply_offset_rel:
  "list_all2 (\<lambda>(name, vals) (name', vals'). name' = name \<and>
        (if name = col then list_all2 (\<lambda>v v'. v' = float64_add v off) vals vals' else vals' = vals))
     df (apply_offset col off df)"
  unfolding apply_offset_def
  by (induction df) (auto simp: list_all2_map2 list_all2_same)

lemma apply_offset_names: "map fst (apply_offset col off df) = map fst df"
  unfolding apply_offset_def by (induction df) auto

lemma apply_offset_other:
  "i < length df \<Longrightarrow> fst (df ! i) \<noteq> col \<Longrightarrow> apply_offset col off df ! i = df ! i"
  unfolding apply_offset_def by (auto split: prod.splits)

lemma apply_offset_other_mem:
  "name \<noteq> col \<Longrightarrow> (name, vals) \<in> set (apply_offset col off df) \<longleftrightarrow> (name, vals) \<in> set df"
  unfolding apply_offset_def by (induction df) (auto split: if_splits)

lemma float64_add_neg:
  "float64_add v (fl_neg (Some d)) = (case v of None \<Rightarrow> None | Some x \<Rightarrow> Some (round64 (x - d)))"
  unfolding float64_add_def fl_neg_def by (cases v) simp_all

lemma float64_exp_tenth_plus_fifth: "float64_exp (tenth + fifth) = - 54"
proof -
  have "float64_exp (tenth + fifth) = max (- 2 - 52) (- 1074)"
    by (rule float64_exp_eq) (simp_all add: pow2_def tenth_def fifth_def)
  then show ?thesis by simp
qed

lemma round64_tenth_plus_fifth: "round64 (tenth + fifth) = 1351079888211149 / 4503599627370496"
  unfolding round64_def float64_exp_tenth_plus_fifth
  by (simp add: pow2_def round_half_even_def tenth_def fifth_def)

text \<open>
  C2, as claimed, fails in its second half. The sheet holds 0.1 in column \<^verbatim>\<open>V1\<close> and
  the outlier of sensor 1 has the difference -0.2 (both as float64 hold them, so that
  rounding leaves them). The offset recorded is 0.2, the negation of the difference, but
  the value written is the float64 sum 0.30000000000000004, and the written value minus
  the value read is not 0.2, whether the difference is taken exactly or in float64.
\<close>

theorem rounded_sum_breaks_round_trip:
  "round64 tenth = tenth \<and> round64 fifth = fifth
   \<and> correct_row sample_args tenth_fs row_t init_state =
       Inr \<lparr>corrections =
              [\<lparr>corr_Year_Pair = Text ''2020-2021'', corr_Sensor = 1, OrigDiff = Some (- fifth),
                OffsetApplied = Some fifth, CorrectedFile = ''output/Seatek_2020_corrected.xlsx''\<rparr>],
            io = [ReadExcel ''data/Seatek.xlsx'' ''Raw Data 2020'',
                  ToExcel ''output/Seatek_2020_corrected.xlsx'' ''Raw Data 2020''
                    [(''V1'', [Some (1351079888211149 / 4503599627370496)])]],
            logged = []\<rparr>
   \<and> 1351079888211149 / 4503599627370496 - tenth \<noteq> fifth
   \<and> round64 (1351079888211149 / 4503599627370496 - tenth) \<noteq> fifth"
proof -
  have t: "round64 tenth = tenth"
  proof -
    have "float64_exp tenth = max (- 4 - 52) (- 1074)"
      by (rule float64_exp_eq) (simp_all add: pow2_def tenth_def)
    then show ?thesis
      by (simp add: round64_def pow2_def round_half_even_def tenth_def)
  qed
  have f: "round64 fifth = fifth"
  proof -
    have "float64_exp fifth = max (- 3 - 52) (- 1074)"
      by (rule float64_exp_eq) (simp_all add: pow2_def fifth_def)
    then show ?thesis
      by (simp add: round64_def pow2_def round_half_even_def fifth_def)
  qed
  have fsum: "float64_add (Some tenth) (Some fifth) = Some (1351079888211149 / 4503599627370496)"
    by (simp add: float64_add_def round64_tenth_plus_fifth)
  have run: "correct_row sample_args tenth_fs row_t init_state =
       Inr \<lparr>corrections =
              [\<lparr>corr_Year_Pair = Text ''2020-2021'', corr_Sensor = 1, OrigDiff = Some (- fifth),
                OffsetApplied = Some fifth, CorrectedFile = ''output/Seatek_2020_corrected.xlsx''\<rparr>],
            io = [ReadExcel ''data/Seatek.xlsx'' ''Raw Data 2020'',
                  ToExcel ''output/Seatek_2020_corrected.xlsx'' ''Raw Data 2020''
                    [(''V1'', [Some (1351079888211149 / 4503599627370496)])]],
            logged = []\<rparr>"
    by (simp add: correct_row_def init_state_def read_raw_def do_io_def do_log_def
        drop_time_col_def apply_offset_def fl_neg_def Let_def fsum string_defs
        row_t_def tenth_fs_def sample_args_def)
  have exact: "1351079888211149 / 4503599627370496 - tenth \<noteq> fifth"
    by (simp add: tenth_def fifth_def)
  have again: "round64 (1351079888211149 / 4503599627370496 - tenth) \<noteq> fifth"
  proof -
    have "float64_exp (1351079888211149 / 4503599627370496 - tenth) = max (- 3 - 52) (- 1074)"
      by (rule float64_exp_eq) (simp_all add: pow2_def tenth_def)
    then show ?thesis
      by (simp add: round64_def pow2_def round_half_even_def tenth_def fifth_def)
  qed
  from t f run exact again show ?thesis by blast
qed

text \<open>
  C2, amended. For an outlier that is corrected (a correction record is added) and whose
  difference is the number \<open>d\<close> (a flagged difference always is a number, by
  \<open>detect_outliers_numeric\<close>), the record holds \<open>d\<close> and the offset \<open>- d\<close>, and the table
  written under the recorded path is the table read, the time column dropped, in which
  the sensor's column holds, row by row, the float64 sum of the value read and the
  offset: where the sheet holds the number \<open>x\<close>, the exact \<open>x - d\<close> rounded to the nearest
  float64, so that the number \<open>y\<close> written has \<open>y - x = - d\<close> whenever \<open>x - d\<close> is a float64;
  where it holds an empty cell, an empty cell. The other columns are as read.
\<close>

theorem offset_added_in_float64:
  assumes "correct_row a fs row st = Inr st1"
    and "corrections st1 = corrections st @ [c]"
    and "Difference row = Some d"
  shows "OrigDiff c = Some d \<and> OffsetApplied c = Some (- d) \<and>
    (\<exists>sheet df_raw out.
        read_raw fs (input a) sheet = Some df_raw \<and>
        io st1 = io st @ [ReadExcel (input a) sheet, ToExcel (CorrectedFile c) sheet out] \<and>
        list_all2 (\<lambda>(name, vals) (name', vals'). name' = name \<and>
            (if name = sensor_col (corr_Sensor c)
             then list_all2 (\<lambda>v v'. case v of None \<Rightarrow> v' = None
                                       | Some x \<Rightarrow> \<exists>y. v' = Some y \<and> y = round64 (x - d) \<and>
                                                    (round64 (x - d) = x - d \<longrightarrow> y - x = - d))
                    vals vals'
             else vals' = vals))
          (drop_time_col df_raw) out)"
proof -
  from correct_row_success [OF assms(1,2)] obtain sensor n df_raw where
    rd: "read_raw fs (input a) (raw_sheet_name n) = Some df_raw"
    and ev: "io st1 = io st @ [ReadExcel (input a) (raw_sheet_name n),
                ToExcel (out_file_name a n) (raw_sheet_name n)
                  (apply_offset (sensor_col sensor) (fl_neg (Difference row)) (drop_time_col df_raw))]"
    and c: "c = \<lparr>corr_Year_Pair = Year_Pair row, corr_Sensor = sensor, OrigDiff = Difference row,
                 OffsetApplied = fl_neg (Difference row), CorrectedFile = out_file_name a n\<rparr>"
    by blast
  let ?out = "apply_offset (sensor_col sensor) (fl_neg (Some d)) (drop_time_col df_raw)"
  have cell: "(v' = float64_add v (fl_neg (Some d)))
       = (case v of None \<Rightarrow> v' = None
          | Some x \<Rightarrow> \<exists>y. v' = Some y \<and> y = round64 (x - d) \<and>
                       (round64 (x - d) = x - d \<longrightarrow> y - x = - d))" for v v'
    by (cases v) (auto simp: float64_add_neg)
  have rel: "list_all2 (\<lambda>(name, vals) (name', vals'). name' = name \<and>
            (if name = sensor_col sensor
             then list_all2 (\<lambda>v v'. case v of None \<Rightarrow> v' = None
                                       | Some x \<Rightarrow> \<exists>y. v' = Some y \<and> y = round64 (x - d) \<and>
                                                    (round64 (x - d) = x - d \<longrightarrow> y - x = - d))
                    vals vals'
             else vals' = vals))
          (drop_time_col df_raw) ?out"
    using apply_offset_rel [of "sensor_col sensor" "fl_neg (Some d)" "drop_time_col df_raw"]
    by (simp only: cell)
  have "OrigDiff c = Some d" "OffsetApplied c = Some (- d)" "corr_Sensor c = sensor"
    "CorrectedFile c = out_file_name a n"
    using c assms(3) by (simp_all add: fl_neg_def)
  with rd ev rel assms(3) show ?thesis
    by auto
qed

theorem offset_added_in_float64_witness:
  "correct_row sample_args sample_fs row_a init_state = Inr state_a
   \<and> OrigDiff corr_a = Some 1 \<and> OffsetApplied corr_a = Some (- 1)
   \<and> (\<exists>sheet df_raw out.
        read_raw sample_fs (input sample_args) sheet = Some df_raw \<and>
        io state_a = io init_state @ [ReadExcel (input sample_args) sheet, ToExcel (CorrectedFile corr_a) sheet out] \<and>
        list_all2 (\<lambda>(name, vals) (name', vals'). name' = name \<and>
            (if name = sensor_col (corr_Sensor corr_a)
             then list_all2 (\<lambda>v v'. case v of None \<Rightarrow> v' = None
                                       | Some x \<Rightarrow> \<exists>y. v' = Some y \<and> y = round64 (x - 1) \<and>
                                                    (round64 (x - 1) = x - 1 \<longrightarrow> y - x = - 1))
                    vals vals'
             else vals' = vals))
          (drop_time_col df_raw) out)"
proof -
  have run: "correct_row sample_args sample_fs row_a init_state = Inr state_a"
    by (simp add: run_defs string_defs sample_defs state_a_def corr_a_def)
  have cs: "corrections state_a = corrections init_state @ [corr_a]"
    by (simp add: state_a_def init_state_def)
  have d: "Difference row_a = Some 1"
    by (simp add: row_a_def)
  from offset_added_in_float64 [OF run cs d] run show ?thesis
    by blast
qed

subsection \<open>The time column\<close>

text \<open>
  C8. For an outlier that is corrected, the table written has the columns of the sheet
  read without its last column when that column's header contains \<^verbatim>\<open>time\<close> in any
  case, so that header is not among the written headers (headers being distinct), and
  all the columns of the sheet otherwise. The column is dropped before the offset is
  applied: every kept column other than the sensor's is written as read.
\<close>

theorem time_column_dropped:
  assumes "correct_row a fs row st = Inr st1"
    and "corrections st1 = corrections st @ [c]"
  shows "\<exists>sheet df_raw out.
      read_raw fs (input a) sheet = Some df_raw \<and> df_raw \<noteq> [] \<and>
      io st1 = io st @ [ReadExcel (input a) sheet, ToExcel (CorrectedFile c) sheet out] \<and>
      (py_in ''time'' (py_lower (fst (last df_raw))) \<longrightarrow>
         map fst out = butlast (map fst df_raw) \<and>
         (distinct (map fst df_raw) \<longrightarrow> fst (last df_raw) \<notin> set (map fst out))) \<and>
      (\<not> py_in ''time'' (py_lower (fst (last df_raw))) \<longrightarrow> map fst out = map fst df_raw) \<and>
      (\<forall>i < length out. fst (out ! i) \<noteq> sensor_col (corr_Sensor c) \<longrightarrow> out ! i = df_raw ! i)"
proof -
  from correct_row_success [OF assms] obtain sensor n df_raw where
    rd: "read_raw fs (input a) (raw_sheet_name n) = Some df_raw" and ne: "df_raw \<noteq> []"
    and ev: "io st1 = io st @ [ReadExcel (input a) (raw_sheet_name n),
                ToExcel (out_file_name a n) (raw_sheet_name n)
                  (apply_offset (sensor_col sensor) (fl_neg (Difference row)) (drop_time_col df_raw))]"
    and c: "c = \<lparr>corr_Year_Pair = Year_Pair row, corr_Sensor = sensor, OrigDiff = Difference row,
                 OffsetApplied = fl_neg (Difference row), CorrectedFile = out_file_name a n\<rparr>"
    by blast
  let ?out = "apply_offset (sensor_col sensor) (fl_neg (Difference row)) (drop_time_col df_raw)"
  have names: "map fst ?out = map fst (drop_time_col df_raw)"
    by (rule apply_offset_names)
  have dropped: "map fst ?out = butlast (map fst df_raw)"
    if "py_in ''time'' (py_lower (fst (last df_raw)))"
    using that names by (simp add: drop_time_col_def map_butlast)
  have absent: "fst (last df_raw) \<notin> set (map fst ?out)"
    if t: "py_in ''time'' (py_lower (fst (last df_raw)))" and d: "distinct (map fst df_raw)"
  proof -
    have "map fst df_raw = butlast (map fst df_raw) @ [fst (last df_raw)]"
      using ne by (metis append_butlast_last_id last_map map_is_Nil_conv)
    with d have "distinct (butlast (map fst df_raw) @ [fst (last df_raw)])"
      by simp
    then have "fst (last df_raw) \<notin> set (butlast (map fst df_raw))"
      by simp
    with dropped [OF t] show ?thesis by simp
  qed
  have kept: "map fst ?out = map fst df_raw"
    if "\<not> py_in ''time'' (py_lower (fst (last df_raw)))"
    using that names by (simp add: drop_time_col_def)
  have others: "?out ! i = df_raw ! i"
    if i: "i < length ?out" and o: "fst (?out ! i) \<noteq> sensor_col sensor" for i
  proof -
    have len: "length ?out = length (drop_time_col df_raw)"
      using names by (metis length_map)
    have "fst (?out ! i) = fst (drop_time_col df_raw ! i)"
      using names i len by (metis nth_map)
    with i o len have "?out ! i = drop_time_col df_raw ! i"
      by (simp add: apply_offset_other)
    moreover have "drop_time_col df_raw ! i = df_raw ! i"
      using i len by (auto simp: drop_time_col_def Let_def nth_butlast)
    ultimately show ?thesis by simp
  qed
  have "corr_Sensor c = sensor" "CorrectedFile c = out_file_name a n"
    using c by simp_all
  with rd ne ev dropped absent kept others show ?thesis
    by (intro exI [of _ "raw_sheet_name n"] exI [of _ df_raw] exI [of _ ?out]) (simp del: set_map)
qed

theorem time_column_dropped_witness:
  "correct_row sample_args sample_fs row_a init_state = Inr state_a
   \<and> read_raw sample_fs (input sample_args) ''Raw Data 2020'' = Some sample_raw_2020
   \<and> py_in ''time'' (py_lower (fst (last sample_raw_2020)))
   \<and> map fst sample_raw_2020 = [''V1'', ''V3'', ''Timestamp'']
   \<and> (\<exists>sheet df_raw out.
        read_raw sample_fs (input sample_args) sheet = Some df_raw \<and> df_raw \<noteq> [] \<and>
        io state_a = io init_state @ [ReadExcel (input sample_args) sheet, ToExcel (CorrectedFile corr_a) sheet out] \<and>
        map fst out = [''V1'', ''V3''])"
proof -
  have run: "correct_row sample_args sample_fs row_a init_state = Inr state_a"
    by (simp add: run_defs string_defs sample_defs state_a_def corr_a_def)
  have cs: "corrections state_a = corrections init_state @ [corr_a]"
    by (simp add: state_a_def init_state_def)
  have rd: "read_raw sample_fs (input sample_args) ''Raw Data 2020'' = Some sample_raw_2020"
    by (simp add: run_defs sample_defs)
  have tm: "py_in ''time'' (py_lower (fst (last sample_raw_2020)))"
    by (simp add: sample_raw_2020_def string_defs)
  have nm: "map fst sample_raw_2020 = [''V1'', ''V3'', ''Timestamp'']"
    by (simp add: sample_raw_2020_def)
  from time_column_dropped [OF run cs] obtain sheet df_raw out where
    r: "read_raw sample_fs (input sample_args) sheet = Some df_raw" "df_raw \<noteq> []"
    and e: "io state_a = io init_state @ [ReadExcel (input sample_args) sheet, ToExcel (CorrectedFile corr_a) sheet out]"
    and t: "py_in ''time'' (py_lower (fst (last df_raw))) \<longrightarrow> map fst out = butlast (map fst df_raw)"
    by blast
  from e have "sheet = ''Raw Data 2020''"
    by (simp add: state_a_def init_state_def)
  with r rd have "df_raw = sample_raw_2020"
    by simp
  with t tm nm have "map fst out = [''V1'', ''V3'']"
    by simp
  with r e have "\<exists>sheet df_raw out.
        read_raw sample_fs (input sample_args) sheet = Some df_raw \<and> df_raw \<noteq> [] \<and>
        io state_a = io init_state @ [ReadExcel (input sample_args) sheet, ToExcel (CorrectedFile corr_a) sheet out] \<and>
        map fst out = [''V1'', ''V3'']"
    by (intro exI [of _ sheet] exI [of _ df_raw] exI [of _ out]) simp
  with run rd tm nm show ?thesis
    by simp
qed

subsection \<open>Two corrections of one year\<close>

lemma written_file_last:
  "written_file (es @ [ToExcel p sheet df]) p = Some (sheet, df)"
proof (induction es)
  case Nil
  then show ?case by simp
next
  case (Cons e es)
  then show ?case by (cases e) simp_all
qed

text \<open>
  C10. The path of a corrected file is a function of the output directory, the base
  name of the input and the target year; the sensor does not enter it. When an outlier
  is corrected, further outliers are processed, and an outlier of the same target year
  is corrected, both records name the same path, and the file at that path is then the
  sheet as the workbook holds it (read again, time column dropped) with the second
  outlier's offset on the second outlier's column only: a column of another sensor
  corrected earlier is back to its values in the workbook.
\<close>

theorem same_year_not_cumulative:
  assumes "correct_row a fs r1 st0 = Inr st1" and "corrections st1 = corrections st0 @ [c1]"
    and "process a fs mid st1 = Inr st2"
    and "correct_row a fs r2 st2 = Inr st3" and "corrections st3 = corrections st2 @ [c2]"
    and "target_year r1 = target_year r2"
  shows "CorrectedFile c1 = CorrectedFile c2 \<and>
    (\<exists>n df_raw.
       target_year r2 = Some n \<and>
       CorrectedFile c2 = out_file_name a n \<and>
       (\<forall>a'. output_dir a' = output_dir a \<and> os_path_basename (input a') = os_path_basename (input a)
            \<longrightarrow> out_file_name a' n = out_file_name a n) \<and>
       read_raw fs (input a) (raw_sheet_name n) = Some df_raw \<and>
       written_file (io st3) (CorrectedFile c2) =
         Some (raw_sheet_name n,
               apply_offset (sensor_col (corr_Sensor c2)) (OffsetApplied c2) (drop_time_col df_raw)) \<and>
       (\<forall>name vals. name \<noteq> sensor_col (corr_Sensor c2) \<longrightarrow>
          ((name, vals) \<in> set (apply_offset (sensor_col (corr_Sensor c2)) (OffsetApplied c2) (drop_time_col df_raw))
             \<longleftrightarrow> (name, vals) \<in> set (drop_time_col df_raw))))"
proof -
  from correct_row_success [OF assms(1,2)] obtain ys1 n1 where
    "re_findall (Year_Pair r1) = Inr ys1" "length ys1 = 2" "py_int (hd ys1) = Some n1"
    and c1: "CorrectedFile c1 = out_file_name a n1"
    by force
  then have y1: "target_year r1 = Some n1"
    by (simp add: target_year_hd)
  from correct_row_success [OF assms(4,5)] obtain s2 ys2 n2 df_raw where
    t2: "re_findall (Year_Pair r2) = Inr ys2" "length ys2 = 2" "py_int (hd ys2) = Some n2"
    and rd: "read_raw fs (input a) (raw_sheet_name n2) = Some df_raw"
    and ev: "io st3 = io st2 @ [ReadExcel (input a) (raw_sheet_name n2),
                ToExcel (out_file_name a n2) (raw_sheet_name n2)
                  (apply_offset (sensor_col s2) (fl_neg (Difference r2)) (drop_time_col df_raw))]"
    and c2: "c2 = \<lparr>corr_Year_Pair = Year_Pair r2, corr_Sensor = s2, OrigDiff = Difference r2,
                 OffsetApplied = fl_neg (Difference r2), CorrectedFile = out_file_name a n2\<rparr>"
    by blast
  have y2: "target_year r2 = Some n2"
    using t2 by (simp add: target_year_hd)
  have same: "n1 = n2"
    using assms(6) y1 y2 by simp
  have path: "out_file_name a' n2 = out_file_name a n2"
    if "output_dir a' = output_dir a" "os_path_basename (input a') = os_path_basename (input a)" for a'
    using that by (simp add: out_file_name_def)
  have "io st3 = (io st2 @ [ReadExcel (input a) (raw_sheet_name n2)]) @
                [ToExcel (out_file_name a n2) (raw_sheet_name n2)
                  (apply_offset (sensor_col s2) (fl_neg (Difference r2)) (drop_time_col df_raw))]"
    using ev by simp
  then have wf: "written_file (io st3) (out_file_name a n2) =
      Some (raw_sheet_name n2,
            apply_offset (sensor_col s2) (fl_neg (Difference r2)) (drop_time_col df_raw))"
    by (simp only: written_file_last)
  have fields: "corr_Sensor c2 = s2" "OffsetApplied c2 = fl_neg (Difference r2)"
    "CorrectedFile c2 = out_file_name a n2"
    using c2 by simp_all
  have others: "(name, vals) \<in> set (apply_offset (sensor_col s2) (fl_neg (Difference r2)) (drop_time_col df_raw))
             \<longleftrightarrow> (name, vals) \<in> set (drop_time_col df_raw)"
    if "name \<noteq> sensor_col s2" for name vals
    using that by (rule apply_offset_other_mem)
  have "CorrectedFile c1 = CorrectedFile c2"
    using c1 same fields by simp
  moreover have "target_year r2 = Some n2 \<and>
       CorrectedFile c2 = out_file_name a n2 \<and>
       (\<forall>a'. output_dir a' = output_dir a \<and> os_path_basename (input a') = os_path_basename (input a)
            \<longrightarrow> out_file_name a' n2 = out_file_name a n2) \<and>
       read_raw fs (input a) (raw_sheet_name n2) = Some df_raw \<and>
       written_file (io st3) (CorrectedFile c2) =
         Some (raw_sheet_name n2,
               apply_offset (sensor_col (corr_Sensor c2)) (OffsetApplied c2) (drop_time_col df_raw)) \<and>
       (\<forall>name vals. name \<noteq> sensor_col (corr_Sensor c2) \<longrightarrow>
          ((name, vals) \<in> set (apply_offset (sensor_col (corr_Sensor c2)) (OffsetApplied c2) (drop_time_col df_raw))
             \<longleftrightarrow> (name, vals) \<in> set (drop_time_col df_raw)))"
    unfolding fields using y2 rd wf path others by blast
  ultimately show ?thesis by blast
qed

theorem same_year_not_cumulative_witness:
  "correct_row sample_args sample_fs row_a init_state = Inr state_a
   \<and> process sample_args sample_fs [row_d] state_a = Inr state_a
   \<and> correct_row sample_args sample_fs row_g state_a = Inr state_g
   \<and> CorrectedFile corr_a = CorrectedFile corr_g
   \<and> written_file (io state_a) ''output/Seatek_2020_corrected.xlsx'' =
       Some (''Raw Data 2020'', [(''V1'', [Some 10, Some 20]), (''V3'', [Some 4, None])])
   \<and> written_file (io state_g) ''output/Seatek_2020_corrected.xlsx'' =
       Some (''Raw Data 2020'', [(''V1'', [Some 3, Some 13]), (''V3'', [Some 5, None])])"
proof -
  have run1: "correct_row sample_args sample_fs row_a init_state = Inr state_a"
    by (simp add: run_defs string_defs sample_defs state_a_def corr_a_def)
  have cs1: "corrections state_a = corrections init_state @ [corr_a]"
    by (simp add: state_a_def init_state_def)
  have mid: "process sample_args sample_fs [row_d] state_a = Inr state_a"
    by (simp add: run_defs string_defs sample_defs)
  have run2: "correct_row sample_args sample_fs row_g state_a = Inr state_g"
    by (simp add: run_defs string_defs sample_defs state_a_def state_g_def corr_a_def corr_g_def)
  have cs2: "corrections state_g = corrections state_a @ [corr_g]"
    by (simp add: state_a_def state_g_def)
  have yr: "target_year row_a = target_year row_g"
    by (simp add: row_a_def row_g_def target_year_def re_findall_def is_digit_def)
  from same_year_not_cumulative [OF run1 cs1 mid run2 cs2 yr]
  have "CorrectedFile corr_a = CorrectedFile corr_g"
    by blast
  moreover have "written_file (io state_a) ''output/Seatek_2020_corrected.xlsx'' =
       Some (''Raw Data 2020'', [(''V1'', [Some 10, Some 20]), (''V3'', [Some 4, None])])"
    by (simp add: state_a_def)
  moreover have "written_file (io state_g) ''output/Seatek_2020_corrected.xlsx'' =
       Some (''Raw Data 2020'', [(''V1'', [Some 3, Some 13]), (''V3'', [Some 5, None])])"
    by (simp add: state_g_def)
  ultimately show ?thesis
    using run1 mid run2 by blast
qed

subsection \<open>The z-score method\<close>

lemmas series_defs = series_mean_def series_std_def dropna_def List.map_filter_def Let_def

lemma series_std_mean:
  assumes "series_std col = Some s"
  shows "\<exists>m. series_mean col = Some m"
proof -
  have "\<not> length (dropna col) \<le> 1"
    using assms unfolding series_std_def Let_def by (auto split: if_splits)
  then have "dropna col \<noteq> []"
    by auto
  then show ?thesis
    unfolding series_mean_def Let_def by simp
qed

lemma zscore_mask_zero:
  "fl_ge (fl_abs (fl_sub d (Some m))) (Some 0) \<longleftrightarrow> d \<noteq> None"
  unfolding fl_ge_def fl_abs_def fl_sub_def by (cases d) simp_all

lemma zscore_mask_nan:
  "\<not> fl_ge x (fl_mul z None)"
  unfolding fl_ge_def fl_mul_def by (cases x; cases z) simp_all

text \<open>
  C4, as claimed, fails: of the differences 1, 2, 3 the mean is 2 and the sample
  standard deviation 1; with threshold 0 the record whose difference is the mean is
  returned with the others, since \<open>\<bar>2 - 2\<bar> \<ge> 0 * 1\<close>.
\<close>

theorem zscore_zero_returns_mean_record:
  "series_mean (map Difference [z1, z2, z3]) = Difference z2
   \<and> detect_outliers [z1, z2, z3] ''zscore'' None (Some 0) None = Inr [z1, z2, z3]"
  by (simp add: detect_outliers_def select_mask_def series_defs fl_ge_def fl_abs_def fl_sub_def
      fl_mul_def z1_def z2_def z3_def)

text \<open>
  C4, amended. With method \<^verbatim>\<open>zscore\<close> and threshold 0, when the standard deviation of
  the differences is a nonzero number, the detector returns every record whose
  difference is a number, the records equal to the mean included; when the standard
  deviation is NaN (fewer than two differences are numbers) it returns no record.
\<close>

theorem zscore_zero_returns_all_numeric:
  "(\<forall>s. series_std (map Difference df) = Some s \<and> s \<noteq> 0 \<longrightarrow>
        detect_outliers df ''zscore'' abs_thr (Some 0) iqr_fac
          = Inr (filter (\<lambda>r. Difference r \<noteq> None) df))
   \<and> (series_std (map Difference df) = None \<longrightarrow>
        detect_outliers df ''zscore'' abs_thr (Some 0) iqr_fac = Inr [])"
proof -
  have defined: "detect_outliers df ''zscore'' abs_thr (Some 0) iqr_fac
          = Inr (filter (\<lambda>r. Difference r \<noteq> None) df)"
    if s: "series_std (map Difference df) = Some s" for s
  proof -
    from series_std_mean [OF s] obtain m where m: "series_mean (map Difference df) = Some m"
      by blast
    have "fl_mul (Some 0) (Some s) = Some 0"
      by (simp add: fl_mul_def)
    then show ?thesis
      unfolding detect_outliers_def Let_def
      by (simp add: s m select_mask_map o_def zscore_mask_zero)
  qed
  have undefined: "detect_outliers df ''zscore'' abs_thr (Some 0) iqr_fac = Inr []"
    if s: "series_std (map Difference df) = None"
    unfolding detect_outliers_def Let_def
    by (simp add: s select_mask_map o_def zscore_mask_nan)
  from defined undefined show ?thesis by blast
qed

theorem zscore_zero_returns_all_numeric_witness:
  "series_std (map Difference [z1, row_c, z2, z3]) = Some 1
   \<and> detect_outliers [z1, row_c, z2, z3] ''zscore'' None (Some 0) None = Inr [z1, z2, z3]
   \<and> series_std (map Difference [z1, row_c]) = None
   \<and> detect_outliers [z1, row_c] ''zscore'' None (Some 0) None = Inr []"
proof -
  have s: "series_std (map Difference [z1, row_c, z2, z3]) = Some 1"
    by (simp add: series_defs z1_def z2_def z3_def row_c_def)
  have n: "series_std (map Difference [z1, row_c]) = None"
    by (simp add: series_defs z1_def row_c_def)
  have f: "filter (\<lambda>r. Difference r \<noteq> None) [z1, row_c, z2, z3] = [z1, z2, z3]"
    by (simp add: z1_def z2_def z3_def row_c_def)
  from zscore_zero_returns_all_numeric [of "[z1, row_c, z2, z3]" None None] s
  have "detect_outliers [z1, row_c, z2, z3] ''zscore'' None (Some 0) None
          = Inr (filter (\<lambda>r. Difference r \<noteq> None) [z1, row_c, z2, z3])"
    by simp
  moreover
  from zscore_zero_returns_all_numeric [of "[z1, row_c]" None None] n
  have "detect_outliers [z1, row_c] ''zscore'' None (Some 0) None = Inr []"
    by blast
  ultimately show ?thesis
    using s n f by simp
qed

text \<open>
  C5 does not hold of the code. The differences 1, 1 have mean 1 and standard deviation
  0; the code compares \<open>\<bar>d - mean\<bar>\<close> with \<open>z_thr * std\<close> instead of dividing, so nothing
  fails numerically, but \<open>0 \<ge> 3 * 0\<close> holds and both records, each equal to the mean,
  are flagged at the default threshold 3.
\<close>

theorem zscore_zero_std_flags_all:
  "series_mean (map Difference [k1, k2]) = Some 1
   \<and> series_std (map Difference [k1, k2]) = Some 0
   \<and> detect_outliers [k1, k2] ''zscore'' None (Some 3) None = Inr [k1, k2]"
  by (simp add: detect_outliers_def select_mask_def series_defs fl_ge_def fl_abs_def fl_sub_def
      fl_mul_def k1_def k2_def)

text \<open>
  The same holds of every table and every numeric threshold: a standard deviation of 0
  makes the right-hand side of the comparison 0, and every numeric difference is
  flagged.
\<close>

lemma zscore_zero_std_general:
  assumes "series_std (map Difference df) = Some 0"
  shows "detect_outliers df ''zscore'' abs_thr (Some z) iqr_fac
           = Inr (filter (\<lambda>r. Difference r \<noteq> None) df)"
proof -
  from series_std_mean [OF assms] obtain m where m: "series_mean (map Difference df) = Some m"
    by blast
  have "fl_mul (Some z) (Some 0) = Some 0"
    by (simp add: fl_mul_def)
  then show ?thesis
    unfolding detect_outliers_def Let_def
    by (simp add: assms m select_mask_map o_def zscore_mask_zero)
qed


end
